theory Spec2Isabelle
  imports Main
begin

section \<open>Python values used by both tools\<close>

text \<open>
  Exceptions are values. Every class listed here derives from Python's \<open>Exception\<close>, so
  an \<open>except Exception\<close> clause catches each of them; \<open>except FileNotFoundError\<close> and
  \<open>except ValueError\<close> catch only their own class.
\<close>

datatype exc_class =
  FileNotFoundError | PermissionError | OSError | ValueError | AttributeError
  | IndexError | DatabaseError | RuntimeError

datatype py_exc = Exc exc_class string

fun exc_cls :: "py_exc \<Rightarrow> exc_class" where
  "exc_cls (Exc c m) = c"

text \<open>\<open>str(e)\<close> of an exception: its message.\<close>

fun exc_str :: "py_exc \<Rightarrow> string" where
  "exc_str (Exc c m) = m"

text \<open>\<open>str(n)\<close> of a Python int: decimal digits, with a leading minus sign when negative.\<close>

fun str_nat :: "nat \<Rightarrow> string" where
  "str_nat n =
     (if n < 10 then [''0123456789'' ! n]
      else str_nat (n div 10) @ [''0123456789'' ! (n mod 10)])"

declare str_nat.simps [simp del]

definition py_str_int :: "int \<Rightarrow> string" where
  "py_str_int i = (if i < 0 then CHR ''-'' # str_nat (nat (- i)) else str_nat (nat i))"

text \<open>\<open>str(x)\<close> of a value that is an int or \<open>None\<close>.\<close>

definition py_str_opt_int :: "int option \<Rightarrow> string" where
  "py_str_opt_int x = (case x of None \<Rightarrow> ''None'' | Some i \<Rightarrow> py_str_int i)"

text \<open>Truthiness (\<open>if x\<close>, \<open>not x\<close>, \<open>x or y\<close>) of an optional string and an optional int.\<close>

definition truthy_str :: "string option \<Rightarrow> bool" where
  "truthy_str x = (case x of None \<Rightarrow> False | Some s \<Rightarrow> s \<noteq> [])"

definition truthy_int :: "int option \<Rightarrow> bool" where
  "truthy_int x = (case x of None \<Rightarrow> False | Some i \<Rightarrow> i \<noteq> 0)"

text \<open>\<open>x or ""\<close> for an optional string.\<close>

definition or_empty :: "string option \<Rightarrow> string" where
  "or_empty x = (case x of None \<Rightarrow> [] | Some s \<Rightarrow> s)"


section \<open>The evidence processor module (IrisE01Processor.py)\<close>

subsection \<open>Records of the host application that the module reads\<close>

text \<open>
  The ORM classes are declared by the host application; the module reads the attributes
  below. \<open>file_date_added\<close> is the addition time as a timestamp; \<open>evidence_id\<close> is the
  attribute \<open>id\<close>, \<open>ev_case\<close> the relationship attribute \<open>case\<close>, \<open>client_name\<close> and
  \<open>cases_name\<close> the attribute \<open>name\<close> of a client and of a case.
\<close>

record Client =
  client_name :: "string option"

record Cases =
  cases_name :: "string option"
  client :: "Client option"

record CaseReceivedFile =
  evidence_id :: int
  case_id :: "int option"
  file_hash :: "string option"
  ev_case :: "Cases option"

record DataStoreFile =
  file_case_id :: int
  file_sha256 :: string
  file_date_added :: int
  file_local_name :: string

text \<open>
  The hook payload \<open>data\<close>: a Python list of objects, or a single object. An object is an
  evidence record (an instance of \<open>CaseReceivedFile\<close>) or an instance of another class,
  of which a label and the truth value are kept. A list is truthy when it is not empty,
  an evidence record (an ORM object) always.
\<close>

datatype py_obj = Evidence CaseReceivedFile | OtherObj string bool

datatype payload = DataList "py_obj list" | DataObj py_obj

fun payload_truthy :: "payload \<Rightarrow> bool" where
  "payload_truthy (DataList xs) = (xs \<noteq> [])"
| "payload_truthy (DataObj (Evidence ev)) = True"
| "payload_truthy (DataObj (OtherObj l t)) = t"

text \<open>
  The module configuration, a dict with the four parameters that IrisE01ProcessorConfig.py
  declares with their types (\<open>bool\<close>, \<open>string\<close>, \<open>string\<close>, \<open>bool\<close>); \<open>None\<close> is a key that
  the dict does not hold.
\<close>

record conf =
  enabled :: "bool option"
  e01_script_path :: "string option"
  e01_script_extra_args :: "string option"
  log_debug :: "bool option"

definition empty_conf :: conf where
  "empty_conf = \<lparr>enabled = None, e01_script_path = None,
                  e01_script_extra_args = None, log_debug = None\<rparr>"

text \<open>
  The module instance: the property \<open>module_dict_conf\<close>, which may raise, and the attribute
  \<open>_dict_conf\<close> (\<open>None\<close> when the attribute is absent or holds \<open>None\<close>).
\<close>

record module_instance =
  module_dict_conf :: "py_exc + conf"
  dict_conf :: "conf option"

text \<open>
  The result handed back to the host. In the \<open>iris_interface\<close> package, which is not among
  the sources, \<open>I2Success\<close> and \<open>I2Error\<close> are two status objects of the module, shared by
  every caller in the process; each has a fixed code and the attributes \<open>message\<close>, \<open>data\<close>
  and \<open>logs\<close>. Calling one, as in \<open>I2Success(data=..., logs=...)\<close>, assigns an attribute
  only when the argument given for it is truthy, and returns the status. A status is kept
  here as its kind (success or failure), its message and its data; \<open>status_attrs\<close> are
  the message and the data an object holds before the call. The \<open>logs\<close> argument is a copy
  of the host interface's message queue and is not modelled.
\<close>

record status_attrs =
  st_message :: string
  st_data :: "payload option"

datatype IrisInterfaceStatus = Success string "payload option" | Failure string "payload option"

subsection \<open>Effects\<close>

text \<open>
  Every call that leaves the module is recorded as an event, in the order of the calls:
  a log record (level, format string or formatted text, arguments), the query on the
  stored-file table (case id, hash), the call of \<open>build_upload_path\<close> with \<open>create=True\<close>
  (customer, case name, module), and \<open>subprocess.Popen\<close> (argument vector, environment,
  working directory). \<open>EXCEPTION\<close> is \<open>log.exception\<close>: level ERROR with the traceback.
\<close>

datatype log_level = DEBUG | INFO | WARNING | ERROR | EXCEPTION

datatype log_arg = AStr string | AInt int | ANone

datatype event =
  Log log_level string "log_arg list"
  | Query int string
  | BuildUploadPath string string string
  | Popen "string list" "(string \<times> string) list" "string option"

definition arg_opt_int :: "int option \<Rightarrow> log_arg" where
  "arg_opt_int x = (case x of None \<Rightarrow> ANone | Some i \<Rightarrow> AInt i)"

fun is_Popen :: "event \<Rightarrow> bool" where
  "is_Popen (Popen a e c) = True"
| "is_Popen _ = False"

fun is_Query :: "event \<Rightarrow> bool" where
  "is_Query (Query c h) = True"
| "is_Query _ = False"

fun is_BuildUploadPath :: "event \<Rightarrow> bool" where
  "is_BuildUploadPath (BuildUploadPath a b c) = True"
| "is_BuildUploadPath _ = False"

text \<open>
  What the module calls and does not define is a parameter: the rows of the stored-file
  table and the exception a query on it raises, if any; \<open>build_upload_path\<close>;
  \<open>shlex.split\<close> (\<open>None\<close> when it raises \<open>ValueError\<close>); \<open>os.environ\<close>;
  \<open>app.config.get("UPLOADED_PATH", None)\<close>; the state of a path on disk and any other
  failure of the spawn (fork, chdir, exec); what the shared status objects \<open>I2Success\<close>
  and \<open>I2Error\<close> hold when the handler is called.
\<close>

datatype path_state = Missing | NotExecutable | Executable

record host =
  datastore :: "DataStoreFile list"
  query_fault :: "int \<Rightarrow> string \<Rightarrow> py_exc option"
  build_upload_path :: "string \<Rightarrow> string \<Rightarrow> string \<Rightarrow> py_exc + string option"
  shlex_split :: "string \<Rightarrow> string list option"
  os_environ :: "(string \<times> string) list"
  uploaded_path :: "string option"
  path_state_of :: "string \<Rightarrow> path_state"
  spawn_fault :: "string list \<Rightarrow> (string \<times> string) list \<Rightarrow> string option \<Rightarrow> py_exc option"
  success_obj :: status_attrs
  error_obj :: status_attrs

text \<open>
  \<open>I2Success(data=data, logs=...)\<close> and \<open>I2Error(message=message, logs=...)\<close>: the argument
  replaces the attribute when it is truthy, the other attributes stay as they were.
\<close>

definition I2Success :: "host \<Rightarrow> payload \<Rightarrow> IrisInterfaceStatus" where
  "I2Success h data =
     Success (st_message (success_obj h))
       (if payload_truthy data then Some data else st_data (success_obj h))"

definition I2Error :: "host \<Rightarrow> string \<Rightarrow> IrisInterfaceStatus" where
  "I2Error h message =
     Failure (if message \<noteq> [] then message else st_message (error_obj h))
       (st_data (error_obj h))"

text \<open>\<open>interface_conf.module_name\<close>, which the class binds to \<open>_module_name\<close>.\<close>

definition conf_module_name :: string where
  "conf_module_name = ''iris_e01_processor''"


subsection \<open>What the module calls\<close>

text \<open>
  The ORM query of \<open>_resolve_evidence_path\<close>:
  \<open>DataStoreFile.query.filter(file_case_id == c, file_sha256 == s)
     .order_by(DataStoreFile.file_date_added.desc()).first()\<close>.
  \<open>filter\<close> keeps the rows that match both conditions, \<open>order_by(... desc())\<close> sorts them
  by decreasing addition time, \<open>first()\<close> returns the first row or \<open>None\<close>.
\<close>

definition query_filter :: "host \<Rightarrow> int \<Rightarrow> string \<Rightarrow> DataStoreFile list" where
  "query_filter h c s = filter (\<lambda>r. file_case_id r = c \<and> file_sha256 r = s) (datastore h)"

definition order_by_date_added_desc :: "DataStoreFile list \<Rightarrow> DataStoreFile list" where
  "order_by_date_added_desc rows = sort_key (\<lambda>r. - file_date_added r) rows"

definition first :: "'a list \<Rightarrow> 'a option" where
  "first rows = (case rows of [] \<Rightarrow> None | r # rest \<Rightarrow> Some r)"

text \<open>
  \<open>subprocess.Popen(args, ...)\<close>: \<open>None\<close> when the child was started, otherwise the
  exception raised. Python builds the \<open>OSError\<close> subclass from the errno of the failed exec:
  a program path that does not exist gives \<open>FileNotFoundError\<close> (ENOENT), one that exists
  without execute permission gives \<open>PermissionError\<close> (EACCES).
\<close>

definition subprocess_Popen ::
  "host \<Rightarrow> string list \<Rightarrow> (string \<times> string) list \<Rightarrow> string option \<Rightarrow> py_exc option" where
  "subprocess_Popen h args env cwd =
     (case spawn_fault h args env cwd of
        Some e \<Rightarrow> Some e
      | None \<Rightarrow>
          (case args of
             [] \<Rightarrow> Some (Exc IndexError ''list index out of range'')
           | prog # rest \<Rightarrow>
               (case path_state_of h prog of
                  Missing \<Rightarrow>
                    Some (Exc FileNotFoundError
                            (''[Errno 2] No such file or directory: '' @ [CHR 0x27] @ prog @ [CHR 0x27]))
                | NotExecutable \<Rightarrow>
                    Some (Exc PermissionError
                            (''[Errno 13] Permission denied: '' @ [CHR 0x27] @ prog @ [CHR 0x27]))
                | Executable \<Rightarrow> None)))"

text \<open>\<open>d[k] = v\<close> on a dict kept as an association list; \<open>d.update\<close> sets the keys in turn.\<close>

fun dict_set :: "'k \<Rightarrow> 'v \<Rightarrow> ('k \<times> 'v) list \<Rightarrow> ('k \<times> 'v) list" where
  "dict_set k v [] = [(k, v)]"
| "dict_set k v ((k', v') # kvs) =
     (if k' = k then (k, v) # kvs else (k', v') # dict_set k v kvs)"

fun dict_update :: "('k \<times> 'v) list \<Rightarrow> ('k \<times> 'v) list \<Rightarrow> ('k \<times> 'v) list" where
  "dict_update [] d = d"
| "dict_update ((k, v) # new) d = dict_update new (dict_set k v d)"

subsection \<open>The helpers of the module\<close>

text \<open>
  \<open>_resolve_evidence_path\<close>. \<open>not evidence.file_hash or not evidence.case_id\<close> holds when
  the hash is \<open>None\<close> or empty, or the case id is \<open>None\<close> or 0. The result is the value
  returned (or the exception of the query) and the events.
\<close>

definition resolve_evidence_path ::
  "host \<Rightarrow> CaseReceivedFile \<Rightarrow> (py_exc + string option) \<times> event list" where
  "resolve_evidence_path h evidence =
     (case (file_hash evidence, case_id evidence) of
        (Some s, Some c) \<Rightarrow>
          if s = [] \<or> c = 0 then (Inr None, [])
          else
            (case query_fault h c s of
               Some e \<Rightarrow> (Inl e, [Query c s])
             | None \<Rightarrow>
                 (case first (order_by_date_added_desc (query_filter h c s)) of
                    None \<Rightarrow>
                      (Inr None,
                       [Query c s,
                        Log WARNING
                          ''IrisE01Processor: no DataStoreFile found for evidence id=%s case_id=%s sha256=%s''
                          [AInt (evidence_id evidence), AInt c, AStr s]])
                  | Some dsf \<Rightarrow> (Inr (Some (file_local_name dsf)), [Query c s])))
      | _ \<Rightarrow> (Inr None, []))"

text \<open>\<open>_compute_output_dir\<close>: every exception is caught inside, so it only returns.\<close>

definition compute_output_dir :: "host \<Rightarrow> CaseReceivedFile \<Rightarrow> string option \<times> event list" where
  "compute_output_dir h evidence =
     (let cas = ev_case evidence;
          clt = (case cas of None \<Rightarrow> None | Some c \<Rightarrow> client c);
          case_customer = (case clt of None \<Rightarrow> None | Some cl \<Rightarrow> client_name cl);
          case_name = (case cas of None \<Rightarrow> None | Some c \<Rightarrow> cases_name c)
      in if \<not> truthy_str case_customer \<or> \<not> truthy_str case_name then (None, [])
         else
           (case build_upload_path h (or_empty case_customer) (or_empty case_name) conf_module_name of
              Inr output_dir \<Rightarrow>
                (output_dir,
                 [BuildUploadPath (or_empty case_customer) (or_empty case_name) conf_module_name])
            | Inl e \<Rightarrow>
                (None,
                 [BuildUploadPath (or_empty case_customer) (or_empty case_name) conf_module_name,
                  Log EXCEPTION
                    ''IrisE01Processor: failed to compute output directory for evidence id=%s: %s''
                    [AInt (evidence_id evidence), AStr (exc_str e)]])))"

text \<open>
  \<open>_launch_processing_script\<close>. Both \<open>except\<close> clauses around \<open>Popen\<close> return, the second
  one catches \<open>Exception\<close>, so the function only returns: its result is its events.
\<close>

definition launch_env ::
  "host \<Rightarrow> CaseReceivedFile \<Rightarrow> string \<Rightarrow> string option \<Rightarrow> (string \<times> string) list" where
  "launch_env h evidence e01_path output_dir =
     dict_update
       [(''IRIS_CASE_ID'', py_str_opt_int (case_id evidence)),
        (''IRIS_EVIDENCE_ID'', py_str_int (evidence_id evidence)),
        (''IRIS_E01_PATH'', e01_path),
        (''IRIS_E01_OUTPUT_DIR'', or_empty output_dir),
        (''IRIS_MODULE_NAME'', conf_module_name)]
       (os_environ h)"

definition launch_processing_script ::
  "host \<Rightarrow> string \<Rightarrow> string \<Rightarrow> CaseReceivedFile \<Rightarrow> string \<Rightarrow> string option \<Rightarrow> event list" where
  "launch_processing_script h script_path extra_args_raw evidence e01_path output_dir =
     (let parsed =
            (if extra_args_raw \<noteq> [] then
               (case shlex_split h extra_args_raw of
                  Some toks \<Rightarrow> (toks, [])
                | None \<Rightarrow>
                    ([],
                     [Log ERROR
                        ''IrisE01Processor: failed to parse e01_script_extra_args '%s'; ignoring extra args.''
                        [AStr extra_args_raw]]))
             else ([], []));
          args = [script_path, e01_path] @ fst parsed;
          env = launch_env h evidence e01_path output_dir;
          cwd = (if truthy_str output_dir then output_dir else uploaded_path h)
      in snd parsed @ [Popen args env cwd] @
         (case subprocess_Popen h args env cwd of
            None \<Rightarrow> []
          | Some e \<Rightarrow>
              if exc_cls e = FileNotFoundError then
                [Log ERROR ''IrisE01Processor: script '%s' not found or not executable.''
                   [AStr script_path]]
              else
                [Log EXCEPTION ''IrisE01Processor: failed to launch script '%s': %s''
                   [AStr script_path, AStr (exc_str e)]]))"

subsection \<open>The hook handler\<close>

text \<open>The body of the \<open>try\<close> block of the loop, for one evidence item.\<close>

definition try_evidence ::
  "host \<Rightarrow> string \<Rightarrow> string \<Rightarrow> bool \<Rightarrow> CaseReceivedFile \<Rightarrow> (py_exc + unit) \<times> event list" where
  "try_evidence h script_path extra_args_raw log_dbg evidence =
     (case resolve_evidence_path h evidence of
        (Inl e, t1) \<Rightarrow> (Inl e, t1)
      | (Inr e01, t1) \<Rightarrow>
          if \<not> truthy_str e01 then
            (Inr (),
             t1 @ [Log WARNING
                     (''IrisE01Processor: unable to resolve local path for evidence id=''
                        @ py_str_int (evidence_id evidence) @ '', case_id=''
                        @ py_str_opt_int (case_id evidence)) []])
          else
            (let od = compute_output_dir h evidence;
                 dbg =
                   (if log_dbg then
                      [Log DEBUG
                         (''IrisE01Processor: launching script '%s' for evidence id=%s, case_id=%s, e01_path='%s', output_dir='%s''
                            @ [CHR 0x27])
                         [AStr script_path, AInt (evidence_id evidence),
                          arg_opt_int (case_id evidence), AStr (or_empty e01),
                          AStr (or_empty (fst od))]]
                    else [])
             in (Inr (),
                 t1 @ snd od @ dbg @
                 launch_processing_script h script_path extra_args_raw evidence
                   (or_empty e01) (fst od))))"

text \<open>The loop: \<open>for evidence in evidences: try: ... except Exception as e: log\<close>.\<close>

fun for_evidences ::
  "host \<Rightarrow> string \<Rightarrow> string \<Rightarrow> bool \<Rightarrow> CaseReceivedFile list \<Rightarrow> event list" where
  "for_evidences h script_path extra_args_raw log_dbg [] = []"
| "for_evidences h script_path extra_args_raw log_dbg (evidence # rest) =
     (case try_evidence h script_path extra_args_raw log_dbg evidence of
        (Inr u, t) \<Rightarrow> t
      | (Inl e, t) \<Rightarrow>
          t @ [Log EXCEPTION ''IrisE01Processor: error while handling evidence id=%s: %s''
                 [AInt (evidence_id evidence), AStr (exc_str e)]])
     @ for_evidences h script_path extra_args_raw log_dbg rest"

text \<open>\<open>conf = self.module_dict_conf\<close>, or on an exception \<open>getattr(self, "_dict_conf", {}) or {}\<close>.\<close>

definition load_conf :: "module_instance \<Rightarrow> conf" where
  "load_conf m =
     (case module_dict_conf m of
        Inr c \<Rightarrow> c
      | Inl e \<Rightarrow> (case dict_conf m of None \<Rightarrow> empty_conf | Some c \<Rightarrow> c))"

text \<open>\<open>bool(conf.get("enabled", True))\<close> and \<open>bool(conf.get("log_debug", False))\<close>.\<close>

definition conf_enabled :: "conf \<Rightarrow> bool" where
  "conf_enabled c = (case enabled c of None \<Rightarrow> True | Some b \<Rightarrow> b)"

definition conf_log_debug :: "conf \<Rightarrow> bool" where
  "conf_log_debug c = (case log_debug c of None \<Rightarrow> False | Some b \<Rightarrow> b)"

text \<open>The recognised evidence items of the payload (the two \<open>isinstance\<close> tests).\<close>

fun only_evidences :: "py_obj list \<Rightarrow> CaseReceivedFile list" where
  "only_evidences [] = []"
| "only_evidences (Evidence ev # xs) = ev # only_evidences xs"
| "only_evidences (OtherObj l t # xs) = only_evidences xs"

fun evidences_of :: "payload \<Rightarrow> CaseReceivedFile list" where
  "evidences_of (DataList xs) = only_evidences xs"
| "evidences_of (DataObj (Evidence ev)) = [ev]"
| "evidences_of (DataObj (OtherObj l t)) = []"

definition hooks_handler ::
  "host \<Rightarrow> module_instance \<Rightarrow> string \<Rightarrow> string \<Rightarrow> payload
     \<Rightarrow> IrisInterfaceStatus \<times> event list" where
  "hooks_handler h m hook_name hook_ui_name data =
     (let conf = load_conf m in
      if \<not> conf_enabled conf then (I2Success h data, [])
      else if hook_name \<noteq> ''on_postload_evidence_create'' then (I2Success h data, [])
      else
        (let script_path = e01_script_path conf;
             extra_args_raw = or_empty (e01_script_extra_args conf);
             log_dbg = conf_log_debug conf
         in if \<not> truthy_str script_path then
              (I2Error h ''e01_script_path not configured'',
               [Log ERROR
                  ''IrisE01Processor: e01_script_path is not configured; skipping evidence processing.''
                  []])
            else
              (let evidences = evidences_of data
               in if evidences = [] then
                    (I2Success h data,
                     if log_dbg then
                       [Log DEBUG
                          (''IrisE01Processor: hook '' @ hook_name
                             @ '' received no CaseReceivedFile instances.'') []]
                     else [])
                  else
                    (I2Success h data,
                     for_evidences h (or_empty script_path) extra_args_raw log_dbg evidences))))"


section \<open>The CSV timeline importer (import_timeline_from_csv.py)\<close>

subsection \<open>Values and effects\<close>

text \<open>
  A parsed JSON document as Python holds it (\<open>None\<close>, bool, number, str, list, dict);
  numbers are integers here. \<open>py_truthy\<close> is Python's truth value of such a value.
\<close>

datatype json =
  JNull | JBool bool | JNum int | JStr string | JArr "json list" | JObj "(string \<times> json) list"

fun py_truthy :: "json \<Rightarrow> bool" where
  "py_truthy JNull = False"
| "py_truthy (JBool b) = b"
| "py_truthy (JNum n) = (n \<noteq> 0)"
| "py_truthy (JStr s) = (s \<noteq> [])"
| "py_truthy (JArr xs) = (xs \<noteq> [])"
| "py_truthy (JObj kvs) = (kvs \<noteq> [])"

fun py_type_name :: "json \<Rightarrow> string" where
  "py_type_name JNull = ''NoneType''"
| "py_type_name (JBool b) = ''bool''"
| "py_type_name (JNum n) = ''int''"
| "py_type_name (JStr s) = ''str''"
| "py_type_name (JArr xs) = ''list''"
| "py_type_name (JObj kvs) = ''dict''"

text \<open>
  The response of \<open>requests.post\<close>: the status code, the body text, and what \<open>resp.json()\<close>
  returns (\<open>None\<close> when it raises \<open>ValueError\<close>). \<open>resp.ok\<close> is false exactly for the codes
  400 to 599, for which \<open>raise_for_status\<close> raises.
\<close>

record Response =
  status_code :: int
  text_body :: string
  json_body :: "json option"

definition ok :: "Response \<Rightarrow> bool" where
  "ok resp = (\<not> (400 \<le> status_code resp \<and> status_code resp < 600))"

text \<open>
  The namespace that \<open>parser.parse_args(argv)\<close> returns; \<open>args_case_id\<close> is \<open>args.case_id\<close>
  and \<open>csv\<close> is \<open>args.csv\<close>.
\<close>

record args =
  base_url :: string
  args_case_id :: int
  csv :: string
  api_token :: "string option"
  cookie :: "string option"
  event_source :: string
  no_summary :: bool
  no_graph :: bool
  sync_iocs_assets :: bool

text \<open>
  A printed line is the list of the pieces of its f-string: literal text, or \<open>str(v)\<close> of a
  parsed JSON value \<open>v\<close>. The events of the tool are the file read, the POST (URL, JSON
  payload, headers, timeout in seconds) and the lines printed to each stream.
\<close>

datatype fragment = Lit string | Str json

datatype out_stream = Stdout | Stderr

datatype cli_event =
  ReadText string
  | Post string json "(string \<times> string) list" nat
  | Print out_stream "fragment list"

fun is_Post :: "cli_event \<Rightarrow> bool" where
  "is_Post (Post u p hs t) = True"
| "is_Post _ = False"

text \<open>How a call ends: it returns an exit code, raises, or argparse exits the process.\<close>

datatype cli_result = Return int | Raise py_exc | SystemExit int

text \<open>
  The surroundings of the tool: \<open>argparse\<close> (\<open>None\<close> when it rejects the command line and
  exits with status 2), \<open>Path(...).expanduser().resolve()\<close>, \<open>Path.is_file\<close>,
  \<open>Path.read_text\<close> and \<open>requests.post\<close>.
\<close>

record cli_host =
  parse_args :: "string list \<Rightarrow> args option"
  resolve_path :: "string \<Rightarrow> string"
  is_file :: "string \<Rightarrow> bool"
  read_text :: "string \<Rightarrow> py_exc + string"
  requests_post :: "string \<Rightarrow> json \<Rightarrow> (string \<times> string) list \<Rightarrow> py_exc + Response"

subsection \<open>The functions of the tool\<close>

text \<open>\<open>s.rstrip(c)\<close> for a single character \<open>c\<close>.\<close>

definition rstrip :: "char \<Rightarrow> string \<Rightarrow> string" where
  "rstrip c s = rev (dropWhile (\<lambda>x. x = c) (rev s))"

definition build_headers :: "string option \<Rightarrow> string option \<Rightarrow> (string \<times> string) list" where
  "build_headers api_tok cook =
     (let h0 = [(''Content-Type'', ''application/json'')];
          h1 = (if truthy_str api_tok then dict_set ''Authorization'' (''Bearer '' @ or_empty api_tok) h0
                else h0)
      in if truthy_str cook then dict_set ''Cookie'' (or_empty cook) h1 else h1)"

text \<open>The f-string of line 64 of the tool.\<close>

definition request_url :: "string \<Rightarrow> int \<Rightarrow> string" where
  "request_url base cid =
     rstrip CHR ''/'' base @ ''/case/evidences/'' @ py_str_int cid
       @ ''/../timeline/events/csv_upload''"

definition csv_payload :: "string \<Rightarrow> string \<Rightarrow> bool \<Rightarrow> bool \<Rightarrow> bool \<Rightarrow> json" where
  "csv_payload csv_text ev_source in_summary in_graph sync =
     JObj [(''CSVData'', JStr csv_text),
           (''CSVOptions'',
            JObj [(''event_sync_iocs_assets'', JBool sync),
                  (''event_in_summary'', JBool in_summary),
                  (''event_in_graph'', JBool in_graph),
                  (''event_source'', JStr ev_source)])]"

text \<open>
  What \<open>import_csv\<close> does once the response is there: \<open>data\<close> is the parsed body, or
  \<open>{"raw": resp.text}\<close>; \<open>data.get('message', '')\<close> raises \<open>AttributeError\<close> on a value that
  is not a dict.
\<close>

definition response_data :: "Response \<Rightarrow> json" where
  "response_data resp =
     (case json_body resp of Some d \<Rightarrow> d | None \<Rightarrow> JObj [(''raw'', JStr (text_body resp))])"

definition report :: "Response \<Rightarrow> cli_result \<times> cli_event list" where
  "report resp =
     (let data = response_data resp
      in if ok resp then
           (case data of
              JObj kvs \<Rightarrow>
                (let msg = (case map_of kvs ''message'' of None \<Rightarrow> JStr [] | Some v \<Rightarrow> v)
                 in (Return 0,
                     [Print Stdout
                        [Lit ''[+] Import succeeded: '', Str (if py_truthy msg then msg else data)]]))
            | _ \<Rightarrow>
                (Raise (Exc AttributeError
                          (CHR 0x27 # py_type_name data @ [CHR 0x27]
                             @ '' object has no attribute 'get'' @ [CHR 0x27])),
                 []))
         else
           (Return 1,
            [Print Stderr
               [Lit ''[-] Import failed (HTTP '', Lit (py_str_int (status_code resp)),
                Lit ''): '', Str data]]))"

definition import_csv ::
  "cli_host \<Rightarrow> string \<Rightarrow> int \<Rightarrow> string \<Rightarrow> string option \<Rightarrow> string option \<Rightarrow> string
     \<Rightarrow> bool \<Rightarrow> bool \<Rightarrow> bool \<Rightarrow> cli_result \<times> cli_event list" where
  "import_csv ch base cid csv_path api_tok cook ev_source in_summary in_graph sync =
     (case read_text ch csv_path of
        Inl e \<Rightarrow> (Raise e, [ReadText csv_path])
      | Inr csv_text \<Rightarrow>
          (let url = request_url base cid;
               payload = csv_payload csv_text ev_source in_summary in_graph sync;
               headers = build_headers api_tok cook
           in (case requests_post ch url payload headers of
                 Inl e \<Rightarrow> (Raise e, [ReadText csv_path, Post url payload headers 60])
               | Inr resp \<Rightarrow>
                   (fst (report resp),
                    [ReadText csv_path, Post url payload headers 60] @ snd (report resp)))))"


section \<open>Example inputs\<close>

text \<open>
  A host with four stored files, two of them for case 1 and hash \<open>aa\<close>, a later one for
  case 2 and the same hash, the latest for case 1 and another hash; its store raises on the
  hash \<open>dead\<close>; its \<open>shlex.split\<close> rejects the string \<open>'x\<close> (an unterminated quote) and
  returns any other string as one token; its status objects are as the package creates
  them. \<open>host_stale\<close> is the same host after an earlier success that carried a payload.
\<close>

definition unterminated :: string where
  "unterminated = [CHR 0x27, CHR ''x'']"

definition host_ex :: host where
  "host_ex =
     \<lparr>datastore =
        [\<lparr>file_case_id = 1, file_sha256 = ''aa'', file_date_added = 10,
          file_local_name = ''/data/old.E01''\<rparr>,
         \<lparr>file_case_id = 1, file_sha256 = ''aa'', file_date_added = 20,
          file_local_name = ''/data/new.E01''\<rparr>,
         \<lparr>file_case_id = 2, file_sha256 = ''aa'', file_date_added = 30,
          file_local_name = ''/data/other.E01''\<rparr>,
         \<lparr>file_case_id = 1, file_sha256 = ''bb'', file_date_added = 40,
          file_local_name = ''/data/unrelated.E01''\<rparr>],
      query_fault = (\<lambda>c s. if s = ''dead'' then Some (Exc DatabaseError ''connection lost'') else None),
      build_upload_path = (\<lambda>cu ca mo. Inr (Some (''/up/'' @ cu @ ''/'' @ ca @ ''/'' @ mo))),
      shlex_split = (\<lambda>s. if s = unterminated then None else Some [s]),
      os_environ = [(''PATH'', ''/usr/bin'')],
      uploaded_path = Some ''/up'',
      path_state_of =
        (\<lambda>p. if p = ''/opt/run.sh'' then Executable
             else if p = ''/opt/noexec.sh'' then NotExecutable else Missing),
      spawn_fault = (\<lambda>a e c. None),
      success_obj = \<lparr>st_message = ''Success'', st_data = None\<rparr>,
      error_obj = \<lparr>st_message = ''Unspecified error'', st_data = None\<rparr>\<rparr>"

definition case_ex :: Cases where
  "case_ex = \<lparr>cases_name = Some ''c1'', client = Some \<lparr>client_name = Some ''acme''\<rparr>\<rparr>"

definition ev_ok :: CaseReceivedFile where
  "ev_ok = \<lparr>evidence_id = 7, case_id = Some 1, file_hash = Some ''aa'', ev_case = Some case_ex\<rparr>"

definition ev_dead :: CaseReceivedFile where
  "ev_dead = \<lparr>evidence_id = 8, case_id = Some 1, file_hash = Some ''dead'', ev_case = Some case_ex\<rparr>"

definition ev_nohash :: CaseReceivedFile where
  "ev_nohash = \<lparr>evidence_id = 9, case_id = Some 1, file_hash = None, ev_case = Some case_ex\<rparr>"


definition conf_ex :: conf where
  "conf_ex = \<lparr>enabled = Some True, e01_script_path = Some ''/opt/run.sh'',
              e01_script_extra_args = Some [], log_debug = Some False\<rparr>"

definition module_ex :: "conf \<Rightarrow> module_instance" where
  "module_ex c = \<lparr>module_dict_conf = Inr c, dict_conf = None\<rparr>"

text \<open>The events that are work on an item: a query, a directory computation, a launch.\<close>

definition is_item_work :: "event \<Rightarrow> bool" where
  "is_item_work e = (is_Query e \<or> is_BuildUploadPath e \<or> is_Popen e)"

text \<open>
  A command line for case 3 that names the file \<open>events.csv\<close>, and one that names
  \<open>missing.csv\<close>; a host on which only \<open>/work/events.csv\<close> is a file and the server
  answers every POST with the response \<open>resp\<close>.
\<close>

definition args_ex :: args where
  "args_ex =
     \<lparr>base_url = ''https://iris.local/api/v1/'', args_case_id = 3, csv = ''events.csv'',
      api_token = Some ''tok'', cookie = None, event_source = ''E01 timeline'',
      no_summary = False, no_graph = False, sync_iocs_assets = False\<rparr>"

definition argv_ex :: "string list" where
  "argv_ex = [''--base-url'', ''https://iris.local/api/v1/'', ''--case-id'', ''3'',
              ''--csv'', ''events.csv'', ''--api-token'', ''tok'']"

definition argv_missing :: "string list" where
  "argv_missing = [''--base-url'', ''https://iris.local/api/v1/'', ''--case-id'', ''3'',
                  ''--csv'', ''missing.csv'', ''--api-token'', ''tok'']"

definition cli_ex :: "Response \<Rightarrow> cli_host" where
  "cli_ex resp =
     \<lparr>parse_args =
        (\<lambda>argv. if argv = argv_ex then Some args_ex
               else if argv = argv_missing then Some (args_ex\<lparr>csv := ''missing.csv''\<rparr>)
               else None),
      resolve_path = (\<lambda>p. ''/work/'' @ p),
      is_file = (\<lambda>p. p = ''/work/events.csv''),
      read_text = (\<lambda>p. Inr ''event_date,event_tz''),
      requests_post = (\<lambda>u p hs. Inr resp)\<rparr>"

definition resp_ok :: Response where
  \<open>resp_ok = \<lparr>status_code = 200, text_body = ''{"message": "ok"}'',
               json_body = Some (JObj [(''message'', JStr ''ok'')])\<rparr>\<close>

definition resp_bad :: Response where
  \<open>resp_bad = \<lparr>status_code = 400, text_body = ''{"error": "bad csv"}'',
                json_body = Some (JObj [(''error'', JStr ''bad csv'')])\<rparr>\<close>

definition resp_empty_message :: Response where
  \<open>resp_empty_message = \<lparr>status_code = 200, text_body = ''{"message": ""}'',
                          json_body = Some (JObj [(''message'', JStr [])])\<rparr>\<close>

definition resp_array :: Response where
  "resp_array = \<lparr>status_code = 200, text_body = ''[]'', json_body = Some (JArr [])\<rparr>"


section \<open>Properties of the evidence processor\<close>

subsection \<open>Disabled module, other hooks, missing script path\<close>




text \<open>
  C4. With the module enabled and the hook \<open>on_postload_evidence_create\<close>, a script path
  that is missing or empty makes \<open>hooks_handler\<close> return the error result with the
  message \<open>e01_script_path not configured\<close> (\<open>I2Error\<close> is given no data, so the data of
  the shared error status stays as it was); its only event is the error log, so no item is
  resolved, given a directory or launched.
\<close>

theorem hooks_handler_no_script_path:
  assumes "conf_enabled (load_conf m)"
    and "hook_name = ''on_postload_evidence_create''"
    and "e01_script_path (load_conf m) = None \<or> e01_script_path (load_conf m) = Some []"
  shows "hooks_handler h m hook_name hook_ui_name data =
           (Failure ''e01_script_path not configured'' (st_data (error_obj h)),
            [Log ERROR
               ''IrisE01Processor: e01_script_path is not configured; skipping evidence processing.''
               []])
         \<and> filter is_item_work (snd (hooks_handler h m hook_name hook_ui_name data)) = []"
  using assms
  by (auto simp: hooks_handler_def Let_def truthy_str_def is_item_work_def I2Error_def)

theorem hooks_handler_no_script_path_witness:
  "hooks_handler host_ex (module_ex (conf_ex\<lparr>e01_script_path := Some []\<rparr>))
     ''on_postload_evidence_create'' ''ui'' (DataList [Evidence ev_ok])
   = (Failure ''e01_script_path not configured'' None,
      [Log ERROR
         ''IrisE01Processor: e01_script_path is not configured; skipping evidence processing.''
         []])"
  using hooks_handler_no_script_path [of "module_ex (conf_ex\<lparr>e01_script_path := Some []\<rparr>)"
      "''on_postload_evidence_create''" host_ex "''ui''" "DataList [Evidence ev_ok]"]
  by (simp add: load_conf_def module_ex_def conf_ex_def conf_enabled_def host_ex_def)

subsection \<open>The loop over the evidence items\<close>

lemma only_evidences_append:
  "only_evidences (xs @ ys) = only_evidences xs @ only_evidences ys"
  by (induction xs rule: only_evidences.induct) simp_all

lemma for_evidences_append:
  "for_evidences h sp ea ld (es @ fs) = for_evidences h sp ea ld es @ for_evidences h sp ea ld fs"
  by (induction es) simp_all

lemma for_evidences_concat:
  "for_evidences h sp ea ld es = concat (map (\<lambda>ev. for_evidences h sp ea ld [ev]) es)"
  by (induction es) simp_all

lemma only_evidences_nonempty: "only_evidences xs \<noteq> [] \<Longrightarrow> xs \<noteq> []"
  by (cases xs) simp_all

lemma evidences_payload_truthy: "evidences_of data \<noteq> [] \<Longrightarrow> payload_truthy data"
  by (cases data rule: evidences_of.cases) (simp_all add: only_evidences_nonempty)

lemma hooks_handler_items:
  assumes "conf_enabled (load_conf m)"
    and "hook_name = ''on_postload_evidence_create''"
    and "e01_script_path (load_conf m) = Some sp" and "sp \<noteq> []"
    and "evidences_of data \<noteq> []"
  shows "hooks_handler h m hook_name hook_ui_name data =
           (Success (st_message (success_obj h)) (Some data),
            for_evidences h sp (or_empty (e01_script_extra_args (load_conf m)))
              (conf_log_debug (load_conf m)) (evidences_of data))"
  using assms evidences_payload_truthy [of data]
  by (simp add: hooks_handler_def Let_def truthy_str_def or_empty_def I2Success_def)

lemma resolve_evidence_path_falsy:
  assumes "\<not> truthy_str (file_hash ev) \<or> \<not> truthy_int (case_id ev)"
  shows "resolve_evidence_path h ev = (Inr None, [])"
  using assms
  by (auto simp: resolve_evidence_path_def truthy_str_def truthy_int_def split: option.splits)

lemma try_evidence_falsy:
  assumes "\<not> truthy_str (file_hash ev) \<or> \<not> truthy_int (case_id ev)"
  shows "try_evidence h sp ea ld ev =
           (Inr (),
            [Log WARNING
               (''IrisE01Processor: unable to resolve local path for evidence id=''
                  @ py_str_int (evidence_id ev) @ '', case_id='' @ py_str_opt_int (case_id ev)) []])"
  by (simp add: try_evidence_def resolve_evidence_path_falsy [OF assms] truthy_str_def)

text \<open>
  C7. An evidence item whose hash or case id is falsy (absent, empty, zero) is resolved to
  nothing without a query on the store, and in the handler's loop it contributes exactly one
  warning, between the events of the items before it and of the items after it: no process
  is launched for it and the loop goes on.
\<close>

theorem falsy_item_is_skipped:
  assumes "\<not> truthy_str (file_hash ev) \<or> \<not> truthy_int (case_id ev)"
    and "conf_enabled (load_conf m)"
    and "hook_name = ''on_postload_evidence_create''"
    and "e01_script_path (load_conf m) = Some sp" and "sp \<noteq> []"
  shows "resolve_evidence_path h ev = (Inr None, [])
         \<and> snd (hooks_handler h m hook_name hook_ui_name (DataList (xs @ Evidence ev # ys))) =
             for_evidences h sp (or_empty (e01_script_extra_args (load_conf m)))
               (conf_log_debug (load_conf m)) (only_evidences xs)
             @ [Log WARNING
                  (''IrisE01Processor: unable to resolve local path for evidence id=''
                     @ py_str_int (evidence_id ev) @ '', case_id=''
                     @ py_str_opt_int (case_id ev)) []]
             @ for_evidences h sp (or_empty (e01_script_extra_args (load_conf m)))
                 (conf_log_debug (load_conf m)) (only_evidences ys)"
proof -
  have ne: "evidences_of (DataList (xs @ Evidence ev # ys)) \<noteq> []"
    by (simp add: only_evidences_append)
  have split: "evidences_of (DataList (xs @ Evidence ev # ys)) =
                 only_evidences xs @ [ev] @ only_evidences ys"
    by (simp add: only_evidences_append)
  show ?thesis
    unfolding hooks_handler_items [OF assms(2-5) ne] split for_evidences_append
    by (simp add: resolve_evidence_path_falsy [OF assms(1)] try_evidence_falsy [OF assms(1)])
qed

theorem falsy_item_is_skipped_witness:
  "resolve_evidence_path host_ex ev_nohash = (Inr None, [])
   \<and> snd (hooks_handler host_ex (module_ex conf_ex) ''on_postload_evidence_create'' ''ui''
            (DataList ([] @ Evidence ev_nohash # [Evidence ev_ok]))) =
       [Log WARNING ''IrisE01Processor: unable to resolve local path for evidence id=9, case_id=1'' [],
        Query 1 ''aa'',
        BuildUploadPath ''acme'' ''c1'' ''iris_e01_processor'',
        Popen [''/opt/run.sh'', ''/data/new.E01'']
          [(''PATH'', ''/usr/bin''), (''IRIS_CASE_ID'', ''1''), (''IRIS_EVIDENCE_ID'', ''7''),
           (''IRIS_E01_PATH'', ''/data/new.E01''),
           (''IRIS_E01_OUTPUT_DIR'', ''/up/acme/c1/iris_e01_processor''),
           (''IRIS_MODULE_NAME'', ''iris_e01_processor'')]
          (Some ''/up/acme/c1/iris_e01_processor'')]"
proof -
  have pre: "\<not> truthy_str (file_hash ev_nohash) \<or> \<not> truthy_int (case_id ev_nohash)"
    by (simp add: ev_nohash_def truthy_str_def)
  have en: "conf_enabled (load_conf (module_ex conf_ex))"
    by (simp add: conf_enabled_def load_conf_def module_ex_def conf_ex_def)
  have sp: "e01_script_path (load_conf (module_ex conf_ex)) = Some ''/opt/run.sh''"
    by (simp add: load_conf_def module_ex_def conf_ex_def)
  have rest: "for_evidences host_ex ''/opt/run.sh''
                (or_empty (e01_script_extra_args (load_conf (module_ex conf_ex))))
                (conf_log_debug (load_conf (module_ex conf_ex))) [ev_ok] =
       [Query 1 ''aa'',
        BuildUploadPath ''acme'' ''c1'' ''iris_e01_processor'',
        Popen [''/opt/run.sh'', ''/data/new.E01'']
          [(''PATH'', ''/usr/bin''), (''IRIS_CASE_ID'', ''1''), (''IRIS_EVIDENCE_ID'', ''7''),
           (''IRIS_E01_PATH'', ''/data/new.E01''),
           (''IRIS_E01_OUTPUT_DIR'', ''/up/acme/c1/iris_e01_processor''),
           (''IRIS_MODULE_NAME'', ''iris_e01_processor'')]
          (Some ''/up/acme/c1/iris_e01_processor'')]"
    by (simp add: load_conf_def module_ex_def conf_ex_def or_empty_def conf_log_debug_def
        try_evidence_def resolve_evidence_path_def ev_ok_def host_ex_def query_filter_def
        order_by_date_added_desc_def first_def truthy_str_def compute_output_dir_def Let_def
        case_ex_def conf_module_name_def launch_processing_script_def launch_env_def
        subprocess_Popen_def py_str_opt_int_def py_str_int_def str_nat.simps)
  have idstr: "py_str_int (evidence_id ev_nohash) = ''9''"
      "py_str_opt_int (case_id ev_nohash) = ''1''"
    by (simp_all add: ev_nohash_def py_str_opt_int_def py_str_int_def str_nat.simps)
  show ?thesis
    using falsy_item_is_skipped [OF pre en refl sp, of host_ex "''ui''" "[]" "[Evidence ev_ok]"] rest
    by (simp add: idstr)
qed

subsection \<open>The path resolver\<close>

lemma first_order_by_date_added_desc:
  assumes "rows \<noteq> []"
  shows "\<exists>r. first (order_by_date_added_desc rows) = Some r \<and> r \<in> set rows
             \<and> (\<forall>r' \<in> set rows. file_date_added r' \<le> file_date_added r)"
proof -
  let ?key = "\<lambda>r. - file_date_added r"
  let ?ys = "sort_key ?key rows"
  have "set ?ys = set rows" by simp
  with assms have "?ys \<noteq> []" by (metis set_empty)
  then obtain y ys where ys: "?ys = y # ys" by (cases ?ys) auto
  have "sorted (map ?key ?ys)" by (rule sorted_sort_key)
  with ys have le: "\<forall>z \<in> set ys. ?key y \<le> ?key z" by simp
  have mem: "y \<in> set rows" using \<open>set ?ys = set rows\<close> ys by auto
  have "\<forall>r' \<in> set rows. file_date_added r' \<le> file_date_added y"
  proof
    fix r' assume "r' \<in> set rows"
    then have "r' \<in> set (y # ys)" using \<open>set ?ys = set rows\<close> ys by simp
    then show "file_date_added r' \<le> file_date_added y" using le by auto
  qed
  with ys mem show ?thesis
    by (simp add: first_def order_by_date_added_desc_def)
qed

text \<open>
  C3. For an evidence item with a non-empty hash and a non-zero case id, when the query
  returns and two or more records of the stored-file table have that case id and that
  hash, the resolver returns the local path of a record of the table that has that case
  id and that hash and whose addition time is the latest: no record of the table with that
  case id and that hash was added later.
\<close>

theorem resolve_evidence_path_latest:
  assumes "file_hash ev = Some s" and "s \<noteq> []"
    and "case_id ev = Some c" and "c \<noteq> 0"
    and "query_fault h c s = None"
    and "2 \<le> length (filter (\<lambda>r. file_case_id r = c \<and> file_sha256 r = s) (datastore h))"
  shows "\<exists>r. r \<in> set (datastore h) \<and> file_case_id r = c \<and> file_sha256 r = s
             \<and> (\<forall>r' \<in> set (datastore h).
                   file_case_id r' = c \<and> file_sha256 r' = s \<longrightarrow>
                   file_date_added r' \<le> file_date_added r)
             \<and> resolve_evidence_path h ev = (Inr (Some (file_local_name r)), [Query c s])"
proof -
  from assms(6) have "query_filter h c s \<noteq> []"
    by (auto simp: query_filter_def)
  from first_order_by_date_added_desc [OF this]
  obtain r where r: "first (order_by_date_added_desc (query_filter h c s)) = Some r"
      "r \<in> set (query_filter h c s)"
      "\<forall>r' \<in> set (query_filter h c s). file_date_added r' \<le> file_date_added r"
    by blast
  have res: "resolve_evidence_path h ev = (Inr (Some (file_local_name r)), [Query c s])"
    using assms(1-5) r(1) by (simp add: resolve_evidence_path_def)
  from r(2) have mem: "r \<in> set (datastore h)" "file_case_id r = c" "file_sha256 r = s"
    by (simp_all add: query_filter_def)
  have latest: "\<forall>r' \<in> set (datastore h).
                  file_case_id r' = c \<and> file_sha256 r' = s \<longrightarrow>
                  file_date_added r' \<le> file_date_added r"
    using r(3) by (simp add: query_filter_def)
  from mem latest res show ?thesis by blast
qed

theorem resolve_evidence_path_latest_witness:
  "length (filter (\<lambda>r. file_case_id r = 1 \<and> file_sha256 r = ''aa'') (datastore host_ex)) = 2
   \<and> resolve_evidence_path host_ex ev_ok = (Inr (Some ''/data/new.E01''), [Query 1 ''aa''])"
proof -
  have q: "filter (\<lambda>r. file_case_id r = 1 \<and> file_sha256 r = ''aa'') (datastore host_ex) =
             [\<lparr>file_case_id = 1, file_sha256 = ''aa'', file_date_added = 10,
               file_local_name = ''/data/old.E01''\<rparr>,
              \<lparr>file_case_id = 1, file_sha256 = ''aa'', file_date_added = 20,
               file_local_name = ''/data/new.E01''\<rparr>]"
    by (simp add: host_ex_def)
  have two: "2 \<le> length (filter (\<lambda>r. file_case_id r = 1 \<and> file_sha256 r = ''aa'')
                            (datastore host_ex))"
    by (simp add: q)
  have nf: "query_fault host_ex 1 ''aa'' = None" by (simp add: host_ex_def)
  have new: "\<lparr>file_case_id = 1, file_sha256 = ''aa'', file_date_added = 20,
              file_local_name = ''/data/new.E01''\<rparr> \<in> set (datastore host_ex)"
    by (simp add: host_ex_def)
  from resolve_evidence_path_latest [of ev_ok "''aa''" 1 host_ex, OF _ _ _ _ nf two]
  obtain r where r: "r \<in> set (datastore host_ex)" "file_case_id r = 1" "file_sha256 r = ''aa''"
      "\<forall>r' \<in> set (datastore host_ex).
         file_case_id r' = 1 \<and> file_sha256 r' = ''aa'' \<longrightarrow>
         file_date_added r' \<le> file_date_added r"
      "resolve_evidence_path host_ex ev_ok = (Inr (Some (file_local_name r)), [Query 1 ''aa''])"
    by (auto simp: ev_ok_def)
  from r(4) new have "20 \<le> file_date_added r" by fastforce
  with r(1,2,3) have "file_local_name r = ''/data/new.E01''"
    by (auto simp: host_ex_def)
  with r(5) show ?thesis by (simp add: q)
qed

subsection \<open>The script launcher\<close>

text \<open>
  C5. When \<open>shlex.split\<close> rejects the extra-arguments string (which is then not empty,
  since the empty string splits into no token), the launcher first logs the parse error,
  then calls \<open>Popen\<close>, once, with the argument vector \<open>[script_path, e01_path]\<close> and nothing
  appended; it returns in every case, its result being its list of events.
\<close>

theorem launch_with_malformed_extra_args:
  assumes "extra \<noteq> []" and "shlex_split h extra = None"
  shows "take 2 (launch_processing_script h sp extra ev e01 od) =
           [Log ERROR
              ''IrisE01Processor: failed to parse e01_script_extra_args '%s'; ignoring extra args.''
              [AStr extra],
            Popen [sp, e01] (launch_env h ev e01 od)
              (if truthy_str od then od else uploaded_path h)]
         \<and> filter is_Popen (launch_processing_script h sp extra ev e01 od) =
           [Popen [sp, e01] (launch_env h ev e01 od)
              (if truthy_str od then od else uploaded_path h)]"
  using assms
  by (simp add: launch_processing_script_def Let_def split: option.splits)

theorem launch_with_malformed_extra_args_witness:
  "shlex_split host_ex unterminated = None
   \<and> launch_processing_script host_ex ''/opt/run.sh'' unterminated ev_ok ''/data/new.E01'' None =
       [Log ERROR
          ''IrisE01Processor: failed to parse e01_script_extra_args '%s'; ignoring extra args.''
          [AStr unterminated],
        Popen [''/opt/run.sh'', ''/data/new.E01'']
          (launch_env host_ex ev_ok ''/data/new.E01'' None) (Some ''/up'')]"
proof -
  have ne: "unterminated \<noteq> []" by (simp add: unterminated_def)
  have rej: "shlex_split host_ex unterminated = None" by (simp add: host_ex_def)
  have len: "length (launch_processing_script host_ex ''/opt/run.sh'' unterminated ev_ok
                       ''/data/new.E01'' None) = 2"
    using ne by (simp add: launch_processing_script_def Let_def rej subprocess_Popen_def host_ex_def)
  have up: "uploaded_path host_ex = Some ''/up''" by (simp add: host_ex_def)
  from launch_with_malformed_extra_args [OF ne rej,
      of "''/opt/run.sh''" ev_ok "''/data/new.E01''" None] len
  show ?thesis by (simp add: rej truthy_str_def up ne)
qed

subsection \<open>Partial failure\<close>

lemma truthy_strE:
  assumes "truthy_str x"
  obtains s where "x = Some s" and "s \<noteq> []"
  using assms by (cases x) (auto simp: truthy_str_def)

lemma try_evidence_raises:
  assumes "fst (resolve_evidence_path h ev) = Inl e"
  shows "try_evidence h sp ea ld ev = (Inl e, snd (resolve_evidence_path h ev))"
  using assms by (cases "resolve_evidence_path h ev") (simp add: try_evidence_def)

text \<open>
  C1. With the module enabled, the hook \<open>on_postload_evidence_create\<close>, a script path
  configured and at least one recognised evidence item, \<open>hooks_handler\<close> returns a success
  status whose data is the payload it was given, and its events are the events of handling each recognised
  item on its own, one item after the other, whatever the store, the directory builder and
  \<open>Popen\<close> do for any of them. An item whose processing raises (the query on the store is
  where an exception can leave the helpers) contributes its events up to the exception and
  the logged exception, and the items after it contribute theirs.
\<close>

theorem hooks_handler_partial_failure:
  assumes "conf_enabled (load_conf m)"
    and "hook_name = ''on_postload_evidence_create''"
    and "truthy_str (e01_script_path (load_conf m))"
    and "evidences_of data \<noteq> []"
  shows "fst (hooks_handler h m hook_name hook_ui_name data) =
           Success (st_message (success_obj h)) (Some data)
         \<and> snd (hooks_handler h m hook_name hook_ui_name data) =
             concat (map (\<lambda>ev. snd (hooks_handler h m hook_name hook_ui_name (DataObj (Evidence ev))))
                       (evidences_of data))
         \<and> (\<forall>ev e. fst (resolve_evidence_path h ev) = Inl e \<longrightarrow>
               snd (hooks_handler h m hook_name hook_ui_name (DataObj (Evidence ev))) =
                 snd (resolve_evidence_path h ev)
                 @ [Log EXCEPTION ''IrisE01Processor: error while handling evidence id=%s: %s''
                      [AInt (evidence_id ev), AStr (exc_str e)]])"
proof -
  from assms(3) obtain sp where sp: "e01_script_path (load_conf m) = Some sp" "sp \<noteq> []"
    by (rule truthy_strE)
  let ?ea = "or_empty (e01_script_extra_args (load_conf m))"
  let ?ld = "conf_log_debug (load_conf m)"
  have all: "hooks_handler h m hook_name hook_ui_name data =
               (Success (st_message (success_obj h)) (Some data),
                for_evidences h sp ?ea ?ld (evidences_of data))"
    by (rule hooks_handler_items [OF assms(1,2) sp assms(4)])
  have one: "hooks_handler h m hook_name hook_ui_name (DataObj (Evidence ev)) =
               (Success (st_message (success_obj h)) (Some (DataObj (Evidence ev))),
                for_evidences h sp ?ea ?ld [ev])" for ev
    using hooks_handler_items [OF assms(1,2) sp, of "DataObj (Evidence ev)" h hook_ui_name]
    by simp
  have c1: "fst (hooks_handler h m hook_name hook_ui_name data) =
              Success (st_message (success_obj h)) (Some data)"
    by (simp add: all)
  have c2: "snd (hooks_handler h m hook_name hook_ui_name data) =
             concat (map (\<lambda>ev. snd (hooks_handler h m hook_name hook_ui_name (DataObj (Evidence ev))))
                       (evidences_of data))"
    unfolding all one snd_conv by (rule for_evidences_concat)
  have c3: "snd (hooks_handler h m hook_name hook_ui_name (DataObj (Evidence ev))) =
              snd (resolve_evidence_path h ev)
              @ [Log EXCEPTION ''IrisE01Processor: error while handling evidence id=%s: %s''
                   [AInt (evidence_id ev), AStr (exc_str e)]]"
    if "fst (resolve_evidence_path h ev) = Inl e" for ev e
    unfolding one snd_conv by (simp add: try_evidence_raises [OF that])
  from c1 c2 c3 show ?thesis by blast
qed

theorem hooks_handler_partial_failure_witness:
  "fst (hooks_handler host_ex (module_ex conf_ex) ''on_postload_evidence_create'' ''ui''
          (DataList [Evidence ev_dead, OtherObj ''note'' True, Evidence ev_ok])) =
     Success ''Success'' (Some (DataList [Evidence ev_dead, OtherObj ''note'' True, Evidence ev_ok]))
   \<and> snd (hooks_handler host_ex (module_ex conf_ex) ''on_postload_evidence_create'' ''ui''
            (DataList [Evidence ev_dead, OtherObj ''note'' True, Evidence ev_ok])) =
       [Query 1 ''dead'',
        Log EXCEPTION ''IrisE01Processor: error while handling evidence id=%s: %s''
          [AInt 8, AStr ''connection lost''],
        Query 1 ''aa'',
        BuildUploadPath ''acme'' ''c1'' ''iris_e01_processor'',
        Popen [''/opt/run.sh'', ''/data/new.E01'']
          [(''PATH'', ''/usr/bin''), (''IRIS_CASE_ID'', ''1''), (''IRIS_EVIDENCE_ID'', ''7''),
           (''IRIS_E01_PATH'', ''/data/new.E01''),
           (''IRIS_E01_OUTPUT_DIR'', ''/up/acme/c1/iris_e01_processor''),
           (''IRIS_MODULE_NAME'', ''iris_e01_processor'')]
          (Some ''/up/acme/c1/iris_e01_processor'')]"
proof -
  let ?data = "DataList [Evidence ev_dead, OtherObj ''note'' True, Evidence ev_ok]"
  let ?H = "hooks_handler host_ex (module_ex conf_ex) ''on_postload_evidence_create'' ''ui''"
  have en: "conf_enabled (load_conf (module_ex conf_ex))"
    by (simp add: conf_enabled_def load_conf_def module_ex_def conf_ex_def)
  have sp: "truthy_str (e01_script_path (load_conf (module_ex conf_ex)))"
    by (simp add: load_conf_def module_ex_def conf_ex_def truthy_str_def)
  have ne: "evidences_of ?data \<noteq> []" by simp
  have dead: "resolve_evidence_path host_ex ev_dead =
                (Inl (Exc DatabaseError ''connection lost''), [Query 1 ''dead''])"
    by (simp add: resolve_evidence_path_def ev_dead_def host_ex_def)
  have good: "snd (?H (DataObj (Evidence ev_ok))) =
       [Query 1 ''aa'',
        BuildUploadPath ''acme'' ''c1'' ''iris_e01_processor'',
        Popen [''/opt/run.sh'', ''/data/new.E01'']
          [(''PATH'', ''/usr/bin''), (''IRIS_CASE_ID'', ''1''), (''IRIS_EVIDENCE_ID'', ''7''),
           (''IRIS_E01_PATH'', ''/data/new.E01''),
           (''IRIS_E01_OUTPUT_DIR'', ''/up/acme/c1/iris_e01_processor''),
           (''IRIS_MODULE_NAME'', ''iris_e01_processor'')]
          (Some ''/up/acme/c1/iris_e01_processor'')]"
    by (simp add: hooks_handler_def load_conf_def module_ex_def conf_ex_def or_empty_def
        conf_log_debug_def conf_enabled_def
        try_evidence_def resolve_evidence_path_def ev_ok_def host_ex_def query_filter_def
        order_by_date_added_desc_def first_def truthy_str_def compute_output_dir_def Let_def
        case_ex_def conf_module_name_def launch_processing_script_def launch_env_def
        subprocess_Popen_def py_str_opt_int_def py_str_int_def str_nat.simps)
  have id8: "evidence_id ev_dead = 8" by (simp add: ev_dead_def)
  from hooks_handler_partial_failure [OF en refl sp ne, of host_ex "''ui''"]
  have a: "fst (?H ?data) = Success (st_message (success_obj host_ex)) (Some ?data)"
    and b: "snd (?H ?data) =
              concat (map (\<lambda>ev. snd (?H (DataObj (Evidence ev)))) (evidences_of ?data))"
    and c: "\<And>ev e. fst (resolve_evidence_path host_ex ev) = Inl e \<Longrightarrow>
              snd (?H (DataObj (Evidence ev))) =
                snd (resolve_evidence_path host_ex ev)
                @ [Log EXCEPTION ''IrisE01Processor: error while handling evidence id=%s: %s''
                     [AInt (evidence_id ev), AStr (exc_str e)]]"
    by blast+
  have bad: "snd (?H (DataObj (Evidence ev_dead))) =
               [Query 1 ''dead'',
                Log EXCEPTION ''IrisE01Processor: error while handling evidence id=%s: %s''
                  [AInt 8, AStr ''connection lost'']]"
    using c [of ev_dead "Exc DatabaseError ''connection lost''"] by (simp add: dead id8)
  have msg: "st_message (success_obj host_ex) = ''Success''" by (simp add: host_ex_def)
  show ?thesis
    unfolding a b by (simp add: bad good msg)
qed

subsection \<open>Failed launches\<close>

lemma launch_popen_raises_file_not_found:
  assumes "extra = [] \<or> shlex_split h extra \<noteq> None"
    and "subprocess_Popen h (sp # e01 # (if extra = [] then [] else the (shlex_split h extra)))
           (launch_env h ev e01 od) (if truthy_str od then od else uploaded_path h) = Some e"
    and "exc_cls e = FileNotFoundError"
  shows "launch_processing_script h sp extra ev e01 od =
           [Popen (sp # e01 # (if extra = [] then [] else the (shlex_split h extra)))
              (launch_env h ev e01 od) (if truthy_str od then od else uploaded_path h),
            Log ERROR ''IrisE01Processor: script '%s' not found or not executable.'' [AStr sp]]"
  using assms by (auto simp: launch_processing_script_def Let_def)

lemma launch_popen_raises_other:
  assumes "extra = [] \<or> shlex_split h extra \<noteq> None"
    and "subprocess_Popen h (sp # e01 # (if extra = [] then [] else the (shlex_split h extra)))
           (launch_env h ev e01 od) (if truthy_str od then od else uploaded_path h) = Some e"
    and "exc_cls e \<noteq> FileNotFoundError"
  shows "launch_processing_script h sp extra ev e01 od =
           [Popen (sp # e01 # (if extra = [] then [] else the (shlex_split h extra)))
              (launch_env h ev e01 od) (if truthy_str od then od else uploaded_path h),
            Log EXCEPTION ''IrisE01Processor: failed to launch script '%s': %s''
              [AStr sp, AStr (exc_str e)]]"
  using assms by (auto simp: launch_processing_script_def Let_def)

lemma launch_missing_script:
  assumes "path_state_of h sp = Missing" and "spawn_fault h = (\<lambda>a e c. None)"
  shows "launch_processing_script h sp [] ev e01 od =
           [Popen [sp, e01] (launch_env h ev e01 od)
              (if truthy_str od then od else uploaded_path h),
            Log ERROR ''IrisE01Processor: script '%s' not found or not executable.'' [AStr sp]]"
  using assms by (simp add: launch_processing_script_def Let_def subprocess_Popen_def)

lemma launch_not_executable_script:
  assumes "path_state_of h sp = NotExecutable" and "spawn_fault h = (\<lambda>a e c. None)"
  shows "launch_processing_script h sp [] ev e01 od =
           [Popen [sp, e01] (launch_env h ev e01 od)
              (if truthy_str od then od else uploaded_path h),
            Log EXCEPTION ''IrisE01Processor: failed to launch script '%s': %s''
              [AStr sp, AStr (''[Errno 13] Permission denied: '' @ [CHR 0x27] @ sp @ [CHR 0x27])]]"
  using assms by (simp add: launch_processing_script_def Let_def subprocess_Popen_def)

text \<open>
  C6. The launcher never raises: a failed \<open>Popen\<close> ends in one of two log records. The
  record \<open>script '%s' not found or not executable.\<close> is written for \<open>FileNotFoundError\<close>
  only. A script that exists without execute permission makes \<open>Popen\<close> raise
  \<open>PermissionError\<close>, so for \<open>/opt/noexec.sh\<close> the launcher writes the record of every
  other spawn failure, \<open>failed to launch script '%s': %s\<close>.
\<close>

theorem launch_noexec_logged_as_generic_failure:
  "launch_processing_script host_ex ''/opt/noexec.sh'' [] ev_ok ''/data/new.E01'' None =
     [Popen [''/opt/noexec.sh'', ''/data/new.E01'']
        (launch_env host_ex ev_ok ''/data/new.E01'' None) (Some ''/up''),
      Log EXCEPTION ''IrisE01Processor: failed to launch script '%s': %s''
        [AStr ''/opt/noexec.sh'',
         AStr (''[Errno 13] Permission denied: '' @ [CHR 0x27] @ ''/opt/noexec.sh'' @ [CHR 0x27])]]"
  by (simp add: launch_processing_script_def Let_def subprocess_Popen_def host_ex_def
      truthy_str_def)

section \<open>Properties of the CSV timeline importer\<close>

subsection \<open>A CSV path that is not a file\<close>



subsection \<open>The request URL\<close>

lemma rstrip_decompose: "\<exists>k. s = rstrip c s @ replicate k c"
proof -
  let ?P = "\<lambda>x. x = c"
  let ?t = "takeWhile ?P (rev s)"
  have "\<forall>y \<in> set ?t. y = c" by (auto dest: set_takeWhileD)
  then have t: "replicate (length ?t) c = ?t" by (rule replicate_length_same)
  have "rev (?t @ dropWhile ?P (rev s)) = s"
    by (simp only: takeWhile_dropWhile_id rev_rev_ident)
  then have "s = rstrip c s @ rev ?t" by (simp only: rev_append rstrip_def)
  also have "rev ?t = replicate (length ?t) c" by (metis t rev_replicate)
  finally show ?thesis by blast
qed

lemma rstrip_no_trailing: "rstrip c s = [] \<or> last (rstrip c s) \<noteq> c"
proof (cases "dropWhile (\<lambda>x. x = c) (rev s) = []")
  case True
  then show ?thesis by (simp add: rstrip_def)
next
  case False
  then have "hd (dropWhile (\<lambda>x. x = c) (rev s)) \<noteq> c" by (rule hd_dropWhile)
  with False show ?thesis by (simp add: rstrip_def last_rev)
qed

lemma rstrip_append_replicate: "rstrip c (s @ replicate n c) = rstrip c s"
proof -
  have "dropWhile (\<lambda>x. x = c) (replicate n c @ rev s) = dropWhile (\<lambda>x. x = c) (rev s)"
    by (rule dropWhile_append2) simp
  then show ?thesis by (simp add: rstrip_def)
qed

lemma request_url_append_slashes:
  "request_url (base @ replicate n CHR ''/'') cid = request_url base cid"
  by (simp add: request_url_def rstrip_append_replicate)

lemma report_no_post: "filter is_Post (snd (report resp)) = []"
  by (simp add: report_def Let_def split: json.splits)

lemma import_csv_posts_once:
  assumes "read_text ch p = Inr txt"
  shows "filter is_Post (snd (import_csv ch base cid p tok ck src s g y)) =
           [Post (request_url base cid) (csv_payload txt src s g y) (build_headers tok ck) 60]"
  using assms by (simp add: import_csv_def Let_def report_no_post split: sum.splits)

text \<open>
  C10. Once the CSV file is read, \<open>import_csv\<close> posts exactly once, to the URL made of the
  base URL without its trailing \<open>/\<close> characters (the base URL is that stem followed by
  slashes only, and the stem does not end in a slash), followed by
  \<open>/case/evidences/<case_id>/../timeline/events/csv_upload\<close> with the case id in decimal.
  Slashes appended to the base URL change nothing: the call is the same call.
\<close>

theorem import_csv_request_url:
  assumes "read_text ch p = Inr txt"
  shows "\<exists>stem k.
           base = stem @ replicate k CHR ''/''
           \<and> (stem = [] \<or> last stem \<noteq> CHR ''/'')
           \<and> filter is_Post (snd (import_csv ch base cid p tok ck src s g y)) =
               [Post (stem @ ''/case/evidences/'' @ py_str_int cid
                        @ ''/../timeline/events/csv_upload'')
                  (csv_payload txt src s g y) (build_headers tok ck) 60]
           \<and> (\<forall>n. import_csv ch (base @ replicate n CHR ''/'') cid p tok ck src s g y =
                    import_csv ch base cid p tok ck src s g y)"
proof -
  obtain k where k: "base = rstrip CHR ''/'' base @ replicate k CHR ''/''"
    using rstrip_decompose by blast
  have same: "import_csv ch (base @ replicate n CHR ''/'') cid p tok ck src s g y =
                import_csv ch base cid p tok ck src s g y" for n
    by (simp only: import_csv_def request_url_append_slashes)
  have post: "filter is_Post (snd (import_csv ch base cid p tok ck src s g y)) =
               [Post (rstrip CHR ''/'' base @ ''/case/evidences/'' @ py_str_int cid
                        @ ''/../timeline/events/csv_upload'')
                  (csv_payload txt src s g y) (build_headers tok ck) 60]"
    using import_csv_posts_once [OF assms] by (simp add: request_url_def)
  from k rstrip_no_trailing [of "CHR ''/''" base] post same show ?thesis by blast
qed

theorem import_csv_request_url_witness:
  "filter is_Post
     (snd (import_csv (cli_ex resp_ok) ''https://iris.local/api/v1///'' (- 12)
             ''/work/events.csv'' None None ''E01 timeline'' True True False)) =
     [Post ''https://iris.local/api/v1/case/evidences/-12/../timeline/events/csv_upload''
        (csv_payload ''event_date,event_tz'' ''E01 timeline'' True True False)
        [(''Content-Type'', ''application/json'')] 60]"
proof -
  have rd: "read_text (cli_ex resp_ok) ''/work/events.csv'' = Inr ''event_date,event_tz''"
    by (simp add: cli_ex_def)
  from import_csv_request_url [OF rd, of "''https://iris.local/api/v1''" "- 12"
      None None "''E01 timeline''" True True False]
  have "import_csv (cli_ex resp_ok) (''https://iris.local/api/v1'' @ replicate 3 CHR ''/'') (- 12)
          ''/work/events.csv'' None None ''E01 timeline'' True True False =
        import_csv (cli_ex resp_ok) ''https://iris.local/api/v1'' (- 12)
          ''/work/events.csv'' None None ''E01 timeline'' True True False"
    by blast
  then have same: "import_csv (cli_ex resp_ok) ''https://iris.local/api/v1///'' (- 12)
          ''/work/events.csv'' None None ''E01 timeline'' True True False =
        import_csv (cli_ex resp_ok) ''https://iris.local/api/v1'' (- 12)
          ''/work/events.csv'' None None ''E01 timeline'' True True False"
    by (simp add: eval_nat_numeral)
  have "filter is_Post
         (snd (import_csv (cli_ex resp_ok) ''https://iris.local/api/v1'' (- 12)
                 ''/work/events.csv'' None None ''E01 timeline'' True True False)) =
        [Post ''https://iris.local/api/v1/case/evidences/-12/../timeline/events/csv_upload''
           (csv_payload ''event_date,event_tz'' ''E01 timeline'' True True False)
           [(''Content-Type'', ''application/json'')] 60]"
    by (simp add: import_csv_def Let_def cli_ex_def report_no_post request_url_def rstrip_def
        py_str_int_def str_nat.simps build_headers_def truthy_str_def)
  then show ?thesis by (simp only: same)
qed

subsection \<open>Reporting the response\<close>

lemma import_csv_response:
  assumes "read_text ch p = Inr txt"
    and "requests_post ch (request_url base cid) (csv_payload txt src s g y)
           (build_headers tok ck) = Inr resp"
  shows "import_csv ch base cid p tok ck src s g y =
           (fst (report resp),
            [ReadText p,
             Post (request_url base cid) (csv_payload txt src s g y) (build_headers tok ck) 60]
            @ snd (report resp))"
  using assms by (simp add: import_csv_def Let_def)

text \<open>
  A success status whose body is JSON but not an object: \<open>data.get\<close> raises, nothing is
  printed and \<open>import_csv\<close> does not return.
\<close>

lemma import_csv_array_body_raises:
  "import_csv (cli_ex resp_array) ''https://iris.local/api/v1'' 3 ''/work/events.csv''
     None None ''E01 timeline'' True True False =
     (Raise (Exc AttributeError
               ([CHR 0x27] @ ''list'' @ [CHR 0x27] @ '' object has no attribute 'get''
                  @ [CHR 0x27])),
      [ReadText ''/work/events.csv'',
       Post (request_url ''https://iris.local/api/v1'' 3)
         (csv_payload ''event_date,event_tz'' ''E01 timeline'' True True False)
         (build_headers None None) 60])"
  by (simp add: import_csv_def Let_def cli_ex_def report_def response_data_def ok_def
      resp_array_def)

text \<open>
  C8, as stated, fails: for a success status the line printed is not always the body's
  \<open>message\<close> field when that field is present. The response 200 with the body
  \<open>{"message": ""}\<close> has the field, and \<open>import_csv\<close> prints the whole parsed body after
  \<open>[+] Import succeeded: \<close>, not the field.
\<close>

theorem import_csv_empty_message_counterexample:
  "ok resp_empty_message
   \<and> json_body resp_empty_message = Some (JObj [(''message'', JStr [])])
   \<and> import_csv (cli_ex resp_empty_message) ''https://iris.local/api/v1'' 3 ''/work/events.csv''
       None None ''E01 timeline'' True True False =
       (Return 0,
        [ReadText ''/work/events.csv'',
         Post (request_url ''https://iris.local/api/v1'' 3)
           (csv_payload ''event_date,event_tz'' ''E01 timeline'' True True False)
           (build_headers None None) 60,
         Print Stdout [Lit ''[+] Import succeeded: '', Str (JObj [(''message'', JStr [])])]])
   \<and> Print Stdout [Lit ''[+] Import succeeded: '', Str (JObj [(''message'', JStr [])])]
       \<noteq> Print Stdout [Lit ''[+] Import succeeded: '', Str (JStr [])]"
  by (simp add: import_csv_def Let_def cli_ex_def report_def response_data_def ok_def
      resp_empty_message_def)

text \<open>
  C8, amended. Once the file is read and the POST has returned a response:
  with a success status (\<open>resp.ok\<close>) and a body that is not JSON, \<open>import_csv\<close> prints
  \<open>[+] Import succeeded: \<close> followed by \<open>{"raw": <body text>}\<close> to standard output and
  returns 0; with a success status and a body that is a JSON object, it prints
  \<open>[+] Import succeeded: \<close> followed by the \<open>message\<close> field when the object has one
  that is truthy, and by the whole object otherwise, and returns 0; with any other status
  it prints \<open>[-] Import failed (HTTP <code>): \<close> followed by the parsed body (or the raw
  wrapper) to standard error and returns 1.
\<close>

theorem import_csv_reports:
  assumes "read_text ch p = Inr txt"
    and "requests_post ch (request_url base cid) (csv_payload txt src s g y)
           (build_headers tok ck) = Inr resp"
  shows "(ok resp \<and> json_body resp = None \<longrightarrow>
            import_csv ch base cid p tok ck src s g y =
              (Return 0,
               [ReadText p,
                Post (request_url base cid) (csv_payload txt src s g y) (build_headers tok ck) 60,
                Print Stdout
                  [Lit ''[+] Import succeeded: '', Str (JObj [(''raw'', JStr (text_body resp))])]]))
         \<and> (\<forall>kvs v. ok resp \<and> json_body resp = Some (JObj kvs)
                  \<and> map_of kvs ''message'' = Some v \<and> py_truthy v \<longrightarrow>
            import_csv ch base cid p tok ck src s g y =
              (Return 0,
               [ReadText p,
                Post (request_url base cid) (csv_payload txt src s g y) (build_headers tok ck) 60,
                Print Stdout [Lit ''[+] Import succeeded: '', Str v]]))
         \<and> (\<forall>kvs. ok resp \<and> json_body resp = Some (JObj kvs)
                  \<and> (map_of kvs ''message'' = None
                      \<or> (\<exists>v. map_of kvs ''message'' = Some v \<and> \<not> py_truthy v)) \<longrightarrow>
            import_csv ch base cid p tok ck src s g y =
              (Return 0,
               [ReadText p,
                Post (request_url base cid) (csv_payload txt src s g y) (build_headers tok ck) 60,
                Print Stdout [Lit ''[+] Import succeeded: '', Str (JObj kvs)]]))
         \<and> (\<not> ok resp \<longrightarrow>
            import_csv ch base cid p tok ck src s g y =
              (Return 1,
               [ReadText p,
                Post (request_url base cid) (csv_payload txt src s g y) (build_headers tok ck) 60,
                Print Stderr
                  [Lit ''[-] Import failed (HTTP '', Lit (py_str_int (status_code resp)),
                   Lit ''): '',
                   Str (case json_body resp of
                          Some d \<Rightarrow> d
                        | None \<Rightarrow> JObj [(''raw'', JStr (text_body resp))])]]))"
  unfolding import_csv_response [OF assms]
  by (auto simp: report_def response_data_def Let_def)

theorem import_csv_reports_witness:
  "import_csv (cli_ex resp_ok) ''https://iris.local/api/v1'' 3 ''/work/events.csv''
     None None ''E01 timeline'' True True False =
     (Return 0,
      [ReadText ''/work/events.csv'',
       Post (request_url ''https://iris.local/api/v1'' 3)
         (csv_payload ''event_date,event_tz'' ''E01 timeline'' True True False)
         (build_headers None None) 60,
       Print Stdout [Lit ''[+] Import succeeded: '', Str (JStr ''ok'')]])
   \<and> import_csv (cli_ex resp_bad) ''https://iris.local/api/v1'' 3 ''/work/events.csv''
       None None ''E01 timeline'' True True False =
       (Return 1,
        [ReadText ''/work/events.csv'',
         Post (request_url ''https://iris.local/api/v1'' 3)
           (csv_payload ''event_date,event_tz'' ''E01 timeline'' True True False)
           (build_headers None None) 60,
         Print Stderr
           [Lit ''[-] Import failed (HTTP '', Lit ''400'', Lit ''): '',
            Str (JObj [(''error'', JStr ''bad csv'')])]])"
proof -
  have rd: "read_text (cli_ex r) ''/work/events.csv'' = Inr ''event_date,event_tz''" for r
    by (simp add: cli_ex_def)
  have po: "requests_post (cli_ex r) (request_url ''https://iris.local/api/v1'' 3)
              (csv_payload ''event_date,event_tz'' ''E01 timeline'' True True False)
              (build_headers None None) = Inr r" for r
    by (simp add: cli_ex_def)
  have okr: "ok resp_ok" "json_body resp_ok = Some (JObj [(''message'', JStr ''ok'')])"
      "map_of [(''message'', JStr ''ok'')] ''message'' = Some (JStr ''ok'')"
      "py_truthy (JStr ''ok'')"
    by (simp_all add: ok_def resp_ok_def)
  have bad: "\<not> ok resp_bad" "json_body resp_bad = Some (JObj [(''error'', JStr ''bad csv'')])"
      "py_str_int (status_code resp_bad) = ''400''"
    by (simp_all add: ok_def resp_bad_def py_str_int_def str_nat.simps)
  from import_csv_reports [OF rd po, of resp_ok] okr
  have a: "import_csv (cli_ex resp_ok) ''https://iris.local/api/v1'' 3 ''/work/events.csv''
             None None ''E01 timeline'' True True False =
             (Return 0,
              [ReadText ''/work/events.csv'',
               Post (request_url ''https://iris.local/api/v1'' 3)
                 (csv_payload ''event_date,event_tz'' ''E01 timeline'' True True False)
                 (build_headers None None) 60,
               Print Stdout [Lit ''[+] Import succeeded: '', Str (JStr ''ok'')]])"
    by blast
  from import_csv_reports [OF rd po, of resp_bad] bad
  have b: "import_csv (cli_ex resp_bad) ''https://iris.local/api/v1'' 3 ''/work/events.csv''
             None None ''E01 timeline'' True True False =
             (Return 1,
              [ReadText ''/work/events.csv'',
               Post (request_url ''https://iris.local/api/v1'' 3)
                 (csv_payload ''event_date,event_tz'' ''E01 timeline'' True True False)
                 (build_headers None None) 60,
               Print Stderr
                 [Lit ''[-] Import failed (HTTP '', Lit ''400'', Lit ''): '',
                  Str (JObj [(''error'', JStr ''bad csv'')])]])"
    by simp
  from a b show ?thesis by (rule conjI)
qed

end
